theory Spec2Isabelle
  imports Complex_Main "HOL-Library.AList" "HOL-Library.List_Lexorder" "HOL-Library.Char_ord"
begin

section \<open>PetMatch (app.py): a shallow embedding\<close>

text \<open>
  The program is one Streamlit script. Each user action re-runs the script from the top
  against the per-session dictionary \<^verbatim>\<open>st.session_state\<close>. The embedding follows that
  shape: the values the script handles are JSON values as \<^verbatim>\<open>response.json()\<close> yields
  them, the session dictionary is a record, and every function of the script is a state
  transformer over a \<open>world\<close> that holds the session, the requests issued so far, the
  number of clock readings so far and the elements put on the screen.
\<close>

subsection \<open>JSON values and the Python operations the script applies to them\<close>

text \<open>
  A Python \<^verbatim>\<open>str\<close> is a \<open>string\<close>, one \<open>char\<close> standing for one character of the
  Python string. JSON numbers are Python \<^verbatim>\<open>int\<close>s (the upstream API sends integers for
  ids and \<^verbatim>\<open>expires_in\<close>). A \<^verbatim>\<open>dict\<close> is an association list in insertion order;
  \<^verbatim>\<open>json.loads\<close> yields no key twice, and on a list that repeats a key the first binding
  is the one looked up.
\<close>

datatype json = JNull | JBool bool | JNum int | JStr string | JArr "json list"
  | JObj "(string \<times> json) list"

datatype py_error = KeyError | TypeError | AttributeError | IndexError | StreamlitAPIException

text \<open>Sequencing of expressions that may raise: the first exception wins.\<close>

definition ebind :: "py_error + 'a \<Rightarrow> ('a \<Rightarrow> py_error + 'b) \<Rightarrow> py_error + 'b" where
  "ebind m f = (case m of Inl e \<Rightarrow> Inl e | Inr x \<Rightarrow> f x)"

fun map_exn :: "('a \<Rightarrow> py_error + 'b) \<Rightarrow> 'a list \<Rightarrow> py_error + 'b list" where
  "map_exn f [] = Inr []"
| "map_exn f (x # xs) = ebind (f x) (\<lambda>y. ebind (map_exn f xs) (\<lambda>ys. Inr (y # ys)))"

fun filter_exn :: "('a \<Rightarrow> py_error + bool) \<Rightarrow> 'a list \<Rightarrow> py_error + 'a list" where
  "filter_exn p [] = Inr []"
| "filter_exn p (x # xs) =
     ebind (p x) (\<lambda>b. ebind (filter_exn p xs) (\<lambda>ys. Inr (if b then x # ys else ys)))"

text \<open>Truth value testing (\<^verbatim>\<open>if v:\<close>, \<^verbatim>\<open>not v\<close>).\<close>

fun truthy :: "json \<Rightarrow> bool" where
  "truthy JNull = False"
| "truthy (JBool b) = b"
| "truthy (JNum n) = (n \<noteq> 0)"
| "truthy (JStr s) = (s \<noteq> [])"
| "truthy (JArr xs) = (xs \<noteq> [])"
| "truthy (JObj kvs) = (kvs \<noteq> [])"

text \<open>
  \<^verbatim>\<open>a == b\<close>: Python compares \<^verbatim>\<open>True\<close> and \<^verbatim>\<open>1\<close> (and \<^verbatim>\<open>False\<close> and \<^verbatim>\<open>0\<close>) equal, and
  dictionaries without regard to the order of their keys.
\<close>

fun canon :: "json \<Rightarrow> json" where
  "canon (JBool b) = JNum (if b then 1 else 0)"
| "canon (JArr xs) = JArr (map canon xs)"
| "canon (JObj kvs) = JObj (sort_key fst (map (\<lambda>kv. (fst kv, canon (snd kv))) kvs))"
| "canon v = v"

definition py_eq :: "json \<Rightarrow> json \<Rightarrow> bool" where
  "py_eq a b = (canon a = canon b)"

text \<open>\<^verbatim>\<open>v['k']\<close> with a string key.\<close>

fun subscr :: "json \<Rightarrow> string \<Rightarrow> py_error + json" where
  "subscr (JObj kvs) k = (case map_of kvs k of None \<Rightarrow> Inl KeyError | Some v \<Rightarrow> Inr v)"
| "subscr v k = Inl TypeError"

text \<open>\<^verbatim>\<open>v['a']['b']...\<close>, evaluated left to right.\<close>

fun path :: "json \<Rightarrow> string list \<Rightarrow> py_error + json" where
  "path v [] = Inr v"
| "path v (k # ks) = ebind (subscr v k) (\<lambda>u. path u ks)"

text \<open>\<^verbatim>\<open>v[i]\<close> with a non-negative integer index.\<close>

fun index :: "json \<Rightarrow> nat \<Rightarrow> py_error + json" where
  "index (JArr xs) i = (if i < length xs then Inr (xs ! i) else Inl IndexError)"
| "index (JStr s) i = (if i < length s then Inr (JStr [s ! i]) else Inl IndexError)"
| "index (JObj kvs) i = Inl KeyError"
| "index v i = Inl TypeError"

fun py_len :: "json \<Rightarrow> py_error + nat" where
  "py_len (JStr s) = Inr (length s)"
| "py_len (JArr xs) = Inr (length xs)"
| "py_len (JObj kvs) = Inr (length kvs)"
| "py_len v = Inl TypeError"

text \<open>\<^verbatim>\<open>'k' in v\<close>: key of a dict, substring of a str, element of a list.\<close>

fun substring :: "string \<Rightarrow> string \<Rightarrow> bool" where
  "substring k [] = (k = [])"
| "substring k (c # cs) = (take (length k) (c # cs) = k \<or> substring k cs)"

fun contains :: "string \<Rightarrow> json \<Rightarrow> py_error + bool" where
  "contains k (JObj kvs) = Inr (map_of kvs k \<noteq> None)"
| "contains k (JStr s) = Inr (substring k s)"
| "contains k (JArr xs) = Inr (list_ex (py_eq (JStr k)) xs)"
| "contains k v = Inl TypeError"

text \<open>
  \<^verbatim>\<open>v[a:b]\<close> with integer bounds, as Python clamps them; the result as the list a
  \<^verbatim>\<open>for\<close> loop iterates over, or as a value.
\<close>

definition clamp_index :: "nat \<Rightarrow> int \<Rightarrow> nat" where
  "clamp_index n i = (if i < 0 then nat (max (i + int n) 0) else min (nat i) n)"

definition slice :: "'a list \<Rightarrow> int \<Rightarrow> int \<Rightarrow> 'a list" where
  "slice xs a b =
     (let lo = clamp_index (length xs) a; hi = clamp_index (length xs) b
      in take (hi - lo) (drop lo xs))"

fun py_slice :: "json \<Rightarrow> int \<Rightarrow> int \<Rightarrow> py_error + json" where
  "py_slice (JStr s) a b = Inr (JStr (slice s a b))"
| "py_slice (JArr xs) a b = Inr (JArr (slice xs a b))"
| "py_slice v a b = Inl TypeError"

fun py_iter :: "json \<Rightarrow> py_error + json list" where
  "py_iter (JArr xs) = Inr xs"
| "py_iter (JStr s) = Inr (map (\<lambda>c. JStr [c]) s)"
| "py_iter (JObj kvs) = Inr (map (\<lambda>kv. JStr (fst kv)) kvs)"
| "py_iter v = Inl TypeError"

text \<open>The number a value contributes to \<^verbatim>\<open>float + v\<close>.\<close>

fun py_number :: "json \<Rightarrow> py_error + real" where
  "py_number (JNum n) = Inr (of_int n)"
| "py_number (JBool b) = Inr (if b then 1 else 0)"
| "py_number v = Inl TypeError"

subsection \<open>Formatted text\<close>

text \<open>
  An f-string is kept as the list of its pieces: \<open>Lit s\<close> is the text \<open>s\<close>, \<open>Str v\<close> is
  \<^verbatim>\<open>str(v)\<close> of a value that is not a string, \<open>Title s\<close> is \<^verbatim>\<open>s.title()\<close>, and
  \<open>Extended xs t\<close> is \<^verbatim>\<open>str\<close> of the list \<open>xs\<close> after \<^verbatim>\<open>+=\<close> with the text \<open>t\<close>. Characters
  outside ASCII in the script's literals are written by code point (\<^verbatim>\<open>U+2705\<close>).
\<close>

datatype frag = Lit string | Str json | Title string | Extended "json list" "frag list"

type_synonym fstring = "frag list"

fun fmt :: "json \<Rightarrow> fstring" where
  "fmt (JStr s) = [Lit s]"
| "fmt v = [Str v]"

text \<open>\<^verbatim>\<open>v.title()\<close>: only a str has the method.\<close>

fun py_title :: "json \<Rightarrow> py_error + fstring" where
  "py_title (JStr s) = Inr [Title s]"
| "py_title v = Inl AttributeError"

text \<open>\<^verbatim>\<open>', '.join(vs)\<close>: every item must be a str.\<close>

fun py_join :: "string \<Rightarrow> json list \<Rightarrow> py_error + string" where
  "py_join sep [] = Inr []"
| "py_join sep [JStr s] = Inr s"
| "py_join sep (JStr s # v # vs) = ebind (py_join sep (v # vs)) (\<lambda>r. Inr (s @ sep @ r))"
| "py_join sep (u # vs) = Inl TypeError"

text \<open>
  A variable that starts as a JSON value and is extended with \<^verbatim>\<open>+=\<close> by formatted text
  (\<^verbatim>\<open>breed_text\<close>): a str grows, a list is extended by the characters, anything else
  raises \<^verbatim>\<open>TypeError\<close>.
\<close>

datatype pyval = Val json | Txt fstring | Lst "json list" fstring

fun iadd :: "pyval \<Rightarrow> fstring \<Rightarrow> py_error + pyval" where
  "iadd (Val (JStr s)) t = Inr (Txt (Lit s # t))"
| "iadd (Val (JArr xs)) t = Inr (Lst xs t)"
| "iadd (Val v) t = Inl TypeError"
| "iadd (Txt u) t = Inr (Txt (u @ t))"
| "iadd (Lst xs u) t = Inr (Lst xs (u @ t))"

fun fmt_val :: "pyval \<Rightarrow> fstring" where
  "fmt_val (Val v) = fmt v"
| "fmt_val (Txt t) = t"
| "fmt_val (Lst xs t) = [Extended xs t]"

subsection \<open>Session state, the world of one script run, and its inputs\<close>

text \<open>Lines 60-72: the six keys of \<^verbatim>\<open>st.session_state\<close> and their initial values.\<close>

record session_state =
  access_token :: json
  token_expires :: real
  search_results :: json
  selected_pet :: json
  page :: int
  favorites :: "json list"

definition initial_session :: session_state where
  "initial_session = \<lparr>access_token = JNull, token_expires = 0, search_results = JNull,
     selected_pet = JNull, page = 1, favorites = []\<rparr>"

datatype request =
    POST string "(string \<times> string) list"
  | GET fstring json "(string \<times> json) list"

text \<open>
  The outcome of one request after \<^verbatim>\<open>raise_for_status()\<close> and \<^verbatim>\<open>json()\<close>: a
  \<^verbatim>\<open>RequestException\<close> with its message, or the decoded body.
\<close>

datatype http_result = RequestException string | Response json

datatype element =
    Markdown fstring
  | Image json
  | Error_box fstring
  | Success_box fstring
  | Info_box fstring
  | Button string fstring
  | Search_form
  | Slider int int int

record world =
  session :: session_state
  issued :: "request list"
  ticks :: nat
  screen :: "element list"

text \<open>The widget values of the search form (lines 484-507).\<close>

record search_form =
  animal_type :: string
  location :: string
  distance :: int
  age :: string
  size_sel :: string
  gender :: string
  good_with_children :: bool
  good_with_dogs :: bool
  good_with_cats :: bool
  house_trained :: bool
  special_needs :: bool

text \<open>
  What one run of the script reads from outside: the process environment and the
  Streamlit secrets, the clock (\<open>clock e k\<close> is the \<open>k\<close>-th reading of \<^verbatim>\<open>time.time()\<close>),
  the upstream API (\<open>http e k r\<close> answers request \<open>r\<close> issued after \<open>k\<close> earlier ones), the
  form's widget values and whether it was submitted, which button keys were clicked,
  and the page slider's position when the user moved it.
\<close>

record env =
  environ :: "string \<Rightarrow> string option"
  secrets :: "string \<Rightarrow> string option"
  clock :: "nat \<Rightarrow> real"
  http :: "nat \<Rightarrow> request \<Rightarrow> http_result"
  form :: search_form
  submitted :: bool
  clicked :: "fstring \<Rightarrow> bool"
  page_choice :: "int option"

text \<open>
  A statement either returns, raises a Python exception, or calls \<^verbatim>\<open>st.rerun()\<close>, which
  stops the run. The world changed so far is kept in each case.
\<close>

datatype signal = Raised py_error | Rerun

type_synonym 'a prog = "world \<Rightarrow> (signal + 'a) \<times> world"

definition ret :: "'a \<Rightarrow> 'a prog" where
  "ret x = (\<lambda>w. (Inr x, w))"

definition stop :: "signal \<Rightarrow> 'a prog" where
  "stop sg = (\<lambda>w. (Inl sg, w))"

definition bnd :: "'a prog \<Rightarrow> ('a \<Rightarrow> 'b prog) \<Rightarrow> 'b prog" where
  "bnd m f = (\<lambda>w. case m w of (Inl sg, w') \<Rightarrow> (Inl sg, w') | (Inr x, w') \<Rightarrow> f x w')"

definition lift :: "py_error + 'a \<Rightarrow> 'a prog" where
  "lift m = (case m of Inl e \<Rightarrow> stop (Raised e) | Inr x \<Rightarrow> ret x)"

fun block :: "unit prog list \<Rightarrow> unit prog" where
  "block [] = ret ()"
| "block (m # ms) = bnd m (\<lambda>_. block ms)"

definition if_p :: "py_error + bool \<Rightarrow> 'a prog \<Rightarrow> 'a prog \<Rightarrow> 'a prog" where
  "if_p c m1 m2 = bnd (lift c) (\<lambda>b. if b then m1 else m2)"

definition when_p :: "py_error + bool \<Rightarrow> unit prog \<Rightarrow> unit prog" where
  "when_p c m = if_p c m (ret ())"

text \<open>\<^verbatim>\<open>a and b\<close> in a condition: \<open>b\<close> is evaluated only when \<open>a\<close> is true.\<close>

definition py_and :: "py_error + bool \<Rightarrow> py_error + bool \<Rightarrow> py_error + bool" where
  "py_and a b = ebind a (\<lambda>x. if x then b else Inr False)"

definition py_or :: "py_error + bool \<Rightarrow> py_error + bool \<Rightarrow> py_error + bool" where
  "py_or a b = ebind a (\<lambda>x. if x then Inr True else b)"

definition is_true :: "py_error + json \<Rightarrow> py_error + bool" where
  "is_true m = ebind m (\<lambda>v. Inr (truthy v))"

definition get_session :: "session_state prog" where
  "get_session = (\<lambda>w. (Inr (session w), w))"

definition set_session :: "(session_state \<Rightarrow> session_state) \<Rightarrow> unit prog" where
  "set_session f = (\<lambda>w. (Inr (), w\<lparr>session := f (session w)\<rparr>))"

definition emit :: "element \<Rightarrow> unit prog" where
  "emit el = (\<lambda>w. (Inr (), w\<lparr>screen := screen w @ [el]\<rparr>))"

definition time_time :: "env \<Rightarrow> real prog" where
  "time_time e = (\<lambda>w. (Inr (clock e (ticks w)), w\<lparr>ticks := Suc (ticks w)\<rparr>))"

definition send :: "env \<Rightarrow> request \<Rightarrow> http_result prog" where
  "send e r = (\<lambda>w. (Inr (http e (length (issued w)) r), w\<lparr>issued := issued w @ [r]\<rparr>))"

text \<open>\<^verbatim>\<open>st.button(label, key=k)\<close> shows the button and is true in the run its click started.\<close>

definition button :: "env \<Rightarrow> string \<Rightarrow> fstring \<Rightarrow> bool prog" where
  "button e label k = bnd (emit (Button label k)) (\<lambda>_. ret (clicked e k))"

subsection \<open>Credential manager (lines 75-105)\<close>

text \<open>\<^verbatim>\<open>os.environ.get(k) or st.secrets.get(k)\<close>, and \<^verbatim>\<open>not v\<close> of its result.\<close>

definition credential :: "env \<Rightarrow> string \<Rightarrow> string option" where
  "credential e k =
     (case environ e k of
        None \<Rightarrow> secrets e k
      | Some v \<Rightarrow> if v \<noteq> [] then Some v else secrets e k)"

fun missing :: "string option \<Rightarrow> bool" where
  "missing None = True"
| "missing (Some v) = (v = [])"

definition token_url :: string where
  "token_url = ''https://api.petfinder.com/v2/oauth2/token''"

definition token_request :: "string \<Rightarrow> string \<Rightarrow> request" where
  "token_request api_key api_secret =
     POST token_url [(''grant_type'', ''client_credentials''), (''client_id'', api_key),
       (''client_secret'', api_secret)]"

text \<open>Lines 80-105: what runs when the cached token is not returned.\<close>

definition refresh_token :: "env \<Rightarrow> json prog" where
  "refresh_token e =
     (case (credential e ''PETFINDER_API_KEY'', credential e ''PETFINDER_API_SECRET'') of
        (Some api_key, Some api_secret) \<Rightarrow>
          if api_key = [] \<or> api_secret = [] then
            bnd (emit (Error_box [Lit ''U+26A0 Petfinder API credentials are missing. Please set them in your environment variables or Streamlit secrets.'']))
              (\<lambda>_. ret JNull)
          else
            bnd (send e (token_request api_key api_secret)) (\<lambda>r.
              case r of
                RequestException msg \<Rightarrow>
                  bnd (emit (Error_box [Lit ''U+26A0 Error getting access token: '', Lit msg]))
                    (\<lambda>_. ret JNull)
              | Response token_data \<Rightarrow>
                  bnd (lift (subscr token_data ''access_token'')) (\<lambda>tok.
                  bnd (set_session (\<lambda>s. s\<lparr>access_token := tok\<rparr>)) (\<lambda>_.
                  bnd (time_time e) (\<lambda>now.
                  bnd (lift (ebind (subscr token_data ''expires_in'') py_number)) (\<lambda>expires_in.
                  bnd (set_session (\<lambda>s. s\<lparr>token_expires := now + expires_in - 60\<rparr>)) (\<lambda>_.
                  bnd get_session (\<lambda>s. ret (access_token s))))))))
      | _ \<Rightarrow>
          bnd (emit (Error_box [Lit ''U+26A0 Petfinder API credentials are missing. Please set them in your environment variables or Streamlit secrets.'']))
            (\<lambda>_. ret JNull))"

text \<open>
  Lines 75-78: \<^verbatim>\<open>time.time()\<close> is read only when the cached token is truthy.
\<close>

definition get_access_token :: "env \<Rightarrow> json prog" where
  "get_access_token e =
     bnd get_session (\<lambda>s.
       if truthy (access_token s) then
         bnd (time_time e) (\<lambda>now.
           if now < token_expires s then ret (access_token s) else refresh_token e)
       else refresh_token e)"

subsection \<open>Directory client (lines 108-122 and 162-176)\<close>

definition search_pets :: "env \<Rightarrow> (string \<times> json) list \<Rightarrow> json prog" where
  "search_pets e params =
     bnd (get_access_token e) (\<lambda>token.
       if \<not> truthy token then ret JNull
       else
         bnd (send e (GET [Lit ''https://api.petfinder.com/v2/animals''] token params)) (\<lambda>r.
           case r of
             RequestException msg \<Rightarrow>
               bnd (emit (Error_box [Lit ''U+26A0 Error searching pets: '', Lit msg]))
                 (\<lambda>_. ret JNull)
           | Response body \<Rightarrow> ret body))"

definition get_pet_details :: "env \<Rightarrow> json \<Rightarrow> json prog" where
  "get_pet_details e pet_id =
     bnd (get_access_token e) (\<lambda>token.
       if \<not> truthy token then ret JNull
       else
         bnd (send e (GET (Lit ''https://api.petfinder.com/v2/animals/'' # fmt pet_id) token []))
           (\<lambda>r.
           case r of
             RequestException msg \<Rightarrow>
               bnd (emit (Error_box [Lit ''U+26A0 Error getting pet details: '', Lit msg]))
                 (\<lambda>_. ret JNull)
           | Response body \<Rightarrow> lift (subscr body ''animal'')))"

subsection \<open>Compatibility messages (lines 247-287)\<close>

text \<open>
  Lines 251-255, 258-262 and 265-269 are one block written three times, for the keys
  \<^verbatim>\<open>children\<close>, \<^verbatim>\<open>dogs\<close> and \<^verbatim>\<open>cats\<close>: \<open>environment_message\<close> is that block.
\<close>

definition environment_message :: "json \<Rightarrow> string \<Rightarrow> string \<Rightarrow> string \<Rightarrow> py_error + string list"
  where
  "environment_message pet k pos neg =
     ebind (py_and (ebind (subscr pet ''environment'') (contains k))
              (ebind (path pet [''environment'', k]) (\<lambda>v. Inr (v \<noteq> JNull))))
       (\<lambda>known.
          if known then
            ebind (path pet [''environment'', k]) (\<lambda>v. Inr [if truthy v then pos else neg])
          else Inr [])"

text \<open>\<^verbatim>\<open>'k' in pet['attributes'] and pet['attributes']['k']\<close>.\<close>

definition attribute_set :: "json \<Rightarrow> string \<Rightarrow> py_error + bool" where
  "attribute_set pet k =
     py_and (ebind (subscr pet ''attributes'') (contains k)) (is_true (path pet [''attributes'', k]))"

definition attribute_messages :: "json \<Rightarrow> py_error + string list" where
  "attribute_messages pet =
     ebind (is_true (subscr pet ''attributes'')) (\<lambda>has_attributes.
       if has_attributes then
         ebind (attribute_set pet ''special_needs'') (\<lambda>special.
         ebind (attribute_set pet ''house_trained'') (\<lambda>trained.
         ebind (if trained then Inr True
                else ebind (subscr pet ''attributes'') (contains ''house_trained'')) (\<lambda>trained_key.
         ebind (attribute_set pet ''shots_current'') (\<lambda>shots.
         ebind (attribute_set pet ''spayed_neutered'') (\<lambda>spayed.
           Inr ((if special then [''U+26A0 Has special needs''] else [])
              @ (if trained then [''U+2705 House-trained'']
                 else if trained_key then [''U+274C Not house-trained''] else [])
              @ (if shots then [''U+2705 Vaccinations up to date''] else [])
              @ (if spayed then [''U+2705 Spayed/neutered''] else [])))))))
       else Inr [])"

definition get_compatibility_message :: "json \<Rightarrow> py_error + string list" where
  "get_compatibility_message pet =
     ebind (environment_message pet ''children'' ''U+2705 Good with children''
              ''U+274C Not recommended for homes with children'') (\<lambda>children.
     ebind (environment_message pet ''dogs'' ''U+2705 Good with dogs''
              ''U+274C Not recommended for homes with dogs'') (\<lambda>dogs.
     ebind (environment_message pet ''cats'' ''U+2705 Good with cats''
              ''U+274C Not recommended for homes with cats'') (\<lambda>cats.
     ebind (attribute_messages pet) (\<lambda>care.
       Inr (children @ dogs @ cats @ care)))))"

subsection \<open>Pieces shared by the card and the detail page\<close>

text \<open>
  Lines 427-431 and 325-329: \<^verbatim>\<open>breed_text\<close> starts as \<^verbatim>\<open>pet['breeds']['primary']\<close> and is
  extended with \<^verbatim>\<open>+=\<close>.
\<close>

definition breed_text :: "json \<Rightarrow> py_error + pyval" where
  "breed_text pet =
     ebind (path pet [''breeds'', ''primary'']) (\<lambda>primary.
     ebind (path pet [''breeds'', ''secondary'']) (\<lambda>secondary.
     ebind (if truthy secondary then iadd (Val primary) (Lit '' & '' # fmt secondary)
            else Inr (Val primary)) (\<lambda>text1.
     ebind (path pet [''breeds'', ''mixed'']) (\<lambda>mixed.
       if truthy mixed then iadd text1 [Lit '' (Mixed)''] else Inr text1))))"

text \<open>Lines 435 and 340: the colours that are truthy, in order.\<close>

definition colors :: "json \<Rightarrow> py_error + json list" where
  "colors pet =
     ebind (path pet [''colors'', ''primary'']) (\<lambda>c1.
     ebind (path pet [''colors'', ''secondary'']) (\<lambda>c2.
     ebind (path pet [''colors'', ''tertiary'']) (\<lambda>c3.
       Inr (filter truthy [c1, c2, c3]))))"

text \<open>
  Lines 444 and 358:
  \<^verbatim>\<open>f"<div class='pet-description'>{d[:budget]}{'...' if len(d) > budget else ''}</div>"\<close>
  with \<^verbatim>\<open>d = pet['description']\<close>; the card passes 300 and the detail page 500.
\<close>

definition description_html :: "nat \<Rightarrow> json \<Rightarrow> py_error + fstring" where
  "description_html budget pet =
     ebind (ebind (subscr pet ''description'') (\<lambda>d. py_slice d 0 (int budget))) (\<lambda>shown.
     ebind (ebind (subscr pet ''description'') py_len) (\<lambda>n.
       Inr (Lit ''<div class='pet-description'>'' # fmt shown
            @ [Lit (if n > budget then ''...'' else []), Lit ''</div>''])))"

text \<open>The widget key \<^verbatim>\<open>f"{prefix}{tab_id}_{context}_{v}"\<close>.\<close>

definition widget_key :: "string \<Rightarrow> string \<Rightarrow> string \<Rightarrow> json \<Rightarrow> fstring" where
  "widget_key prefix tab_id context v = Lit (prefix @ tab_id @ ''_'' @ context @ ''_'') # fmt v"

text \<open>\<^verbatim>\<open>[p['id'] for p in st.session_state.favorites]\<close>.\<close>

definition favorite_ids :: "json list \<Rightarrow> py_error + json list" where
  "favorite_ids favs = map_exn (\<lambda>p. subscr p ''id'') favs"

text \<open>\<^verbatim>\<open>[p for p in st.session_state.favorites if p['id'] != pet['id']]\<close>.\<close>

definition without_id :: "json \<Rightarrow> json list \<Rightarrow> py_error + json list" where
  "without_id pet favs =
     filter_exn (\<lambda>p. ebind (subscr p ''id'') (\<lambda>i. ebind (subscr pet ''id'') (\<lambda>j.
       Inr (\<not> py_eq i j)))) favs"

subsection \<open>The pet card (lines 397-462)\<close>

text \<open>
  The script defines \<^verbatim>\<open>display_pet_card\<close> twice (lines 179 and 397). The second
  \<^verbatim>\<open>def\<close> rebinds the name before \<^verbatim>\<open>main()\<close> runs, so every call reaches the second
  one, which is the one embedded here; the first differs from it in the widget keys and
  in cutting the description at 500 characters.
\<close>

definition has_photos :: "json \<Rightarrow> py_error + bool" where
  "has_photos pet =
     py_and (is_true (subscr pet ''photos''))
       (ebind (ebind (subscr pet ''photos'') py_len) (\<lambda>n. Inr (n > 0)))"

definition card_photo :: "json \<Rightarrow> unit prog" where
  "card_photo pet =
     if_p (has_photos pet)
       (bnd (lift (ebind (ebind (subscr pet ''photos'') (\<lambda>ps. index ps 0))
                     (\<lambda>photo. subscr photo ''medium''))) (\<lambda>url. emit (Image url)))
       (emit (Image (JStr ''https://via.placeholder.com/300x300?text=No+Image'')))"

definition optional_tag :: "json \<Rightarrow> string \<Rightarrow> py_error + fstring" where
  "optional_tag pet k =
     ebind (subscr pet k) (\<lambda>v.
       Inr (if truthy v then Lit ''<span class='tag'>'' # fmt v @ [Lit ''</span> ''] else []))"

definition card_tags :: "json \<Rightarrow> py_error + fstring" where
  "card_tags pet =
     ebind (subscr pet ''status'') (\<lambda>status.
     ebind (if py_eq status (JStr ''adoptable'') then
              Inr [Lit ''<span class='tag' style='background-color: #808080;'>Adoptable</span> '']
            else
              ebind (py_title status) (\<lambda>t.
                Inr (Lit ''<span class='tag' style='background-color: #808080;'>'' # t
                     @ [Lit ''</span> '']))) (\<lambda>tags0.
     ebind (optional_tag pet ''age'') (\<lambda>tags1.
     ebind (optional_tag pet ''gender'') (\<lambda>tags2.
     ebind (optional_tag pet ''size'') (\<lambda>tags3.
       Inr (tags0 @ tags1 @ tags2 @ tags3))))))"

definition card_breed :: "json \<Rightarrow> unit prog" where
  "card_breed pet =
     when_p (is_true (path pet [''breeds'', ''primary'']))
       (bnd (lift (breed_text pet)) (\<lambda>b.
          emit (Markdown (Lit ''<strong>Breed:</strong> '' # fmt_val b))))"

definition card_colors :: "json \<Rightarrow> unit prog" where
  "card_colors pet =
     when_p (py_or (is_true (path pet [''colors'', ''primary'']))
              (py_or (is_true (path pet [''colors'', ''secondary'']))
                 (is_true (path pet [''colors'', ''tertiary'']))))
       (bnd (lift (ebind (colors pet) (py_join '', ''))) (\<lambda>joined.
          emit (Markdown [Lit ''<strong>Colors:</strong> '', Lit joined])))"

definition card_location :: "json \<Rightarrow> unit prog" where
  "card_location pet =
     when_p (py_and (contains ''location'' pet)
              (py_and (is_true (path pet [''contact'', ''address'', ''city'']))
                 (is_true (path pet [''contact'', ''address'', ''state'']))))
       (bnd (lift (path pet [''contact'', ''address'', ''city''])) (\<lambda>city.
        bnd (lift (path pet [''contact'', ''address'', ''state''])) (\<lambda>state.
          emit (Markdown (Lit ''<strong>Location:</strong> '' # fmt city @ Lit '', '' # fmt state)))))"

text \<open>Lines 443-444.\<close>

definition card_description :: "json \<Rightarrow> unit prog" where
  "card_description pet =
     when_p (is_true (subscr pet ''description''))
       (bnd (lift (description_html 300 pet)) (\<lambda>html. emit (Markdown html)))"

text \<open>Lines 446-462: the card's buttons.\<close>

definition card_buttons :: "env \<Rightarrow> json \<Rightarrow> bool \<Rightarrow> string \<Rightarrow> string \<Rightarrow> unit prog" where
  "card_buttons e pet is_favorite context tab_id =
     block
      [bnd (lift (subscr pet ''id'')) (\<lambda>pet_id.
       bnd (button e ''View Details'' (widget_key ''details_'' tab_id context pet_id)) (\<lambda>pressed.
         if pressed then
           bnd (lift (subscr pet ''id'')) (\<lambda>i.
           bnd (set_session (\<lambda>s. s\<lparr>selected_pet := i\<rparr>)) (\<lambda>_. stop Rerun))
         else ret ())),
       if \<not> is_favorite then
         bnd (lift (subscr pet ''id'')) (\<lambda>pet_id.
         bnd (button e ''Add to Favorites'' (widget_key ''fav_'' tab_id context pet_id)) (\<lambda>pressed.
           if pressed then
             bnd (lift (subscr pet ''id'')) (\<lambda>i.
             bnd get_session (\<lambda>s.
             bnd (lift (favorite_ids (favorites s))) (\<lambda>ids.
               if \<not> list_ex (py_eq i) ids then
                 bnd (set_session (\<lambda>s. s\<lparr>favorites := favorites s @ [pet]\<rparr>)) (\<lambda>_.
                 bnd (lift (subscr pet ''name'')) (\<lambda>name.
                 bnd (emit (Success_box (Lit ''Added '' # fmt name @ [Lit '' to favorites!'']))) (\<lambda>_.
                   stop Rerun)))
               else ret ())))
           else ret ()))
       else
         bnd (lift (subscr pet ''id'')) (\<lambda>pet_id.
         bnd (button e ''Remove from Favorites'' (widget_key ''unfav_'' tab_id context pet_id))
           (\<lambda>pressed.
           if pressed then
             bnd get_session (\<lambda>s.
             bnd (lift (without_id pet (favorites s))) (\<lambda>kept.
             bnd (set_session (\<lambda>s. s\<lparr>favorites := kept\<rparr>)) (\<lambda>_.
             bnd (lift (subscr pet ''name'')) (\<lambda>name.
             bnd (emit (Success_box (Lit ''Removed '' # fmt name @ [Lit '' from favorites!'']))) (\<lambda>_.
               stop Rerun)))))
           else ret ()))]"

definition display_pet_card :: "env \<Rightarrow> json \<Rightarrow> bool \<Rightarrow> string \<Rightarrow> string \<Rightarrow> unit prog" where
  "display_pet_card e pet is_favorite context tab_id =
     block
      [card_photo pet,
       bnd (lift (subscr pet ''name'')) (\<lambda>name.
         emit (Markdown (Lit ''<div class='pet-name'>'' # fmt name @ [Lit ''</div>'']))),
       bnd (lift (card_tags pet)) (\<lambda>tags_html.
         emit (Markdown (Lit ''<div>'' # tags_html @ [Lit ''</div>'']))),
       emit (Markdown [Lit ''<div class='pet-details'>'']),
       card_breed pet,
       card_colors pet,
       card_location pet,
       emit (Markdown [Lit ''</div>'']),
       card_description pet,
       card_buttons e pet is_favorite context tab_id]"

subsection \<open>The detail page (lines 293-394)\<close>

text \<open>Lines 305-308: name and status.\<close>

definition detail_header :: "json \<Rightarrow> unit prog" where
  "detail_header pet =
     block
      [bnd (lift (subscr pet ''name'')) (\<lambda>name.
         emit (Markdown (Lit ''<h1 class='main-header'>'' # fmt name @ [Lit ''</h1>'']))),
       bnd (lift (subscr pet ''status'')) (\<lambda>status.
       bnd (lift (ebind (subscr pet ''status'') py_title)) (\<lambda>titled.
         emit (Markdown
           (Lit ''<div style='text-align: center;'><span class='tag' style='background-color: ''
            # Lit (if py_eq status (JStr ''adoptable'') then ''#c8e6c9'' else ''#ffcdd2'')
            # Lit ''; font-size: 1rem;'>'' # titled @ [Lit ''</span></div>'']))))]"

text \<open>Lines 311-317: up to three photos, or the placeholder.\<close>

definition detail_photos :: "json \<Rightarrow> unit prog" where
  "detail_photos pet =
     if_p (has_photos pet)
       (bnd (lift (ebind (subscr pet ''photos'') py_len)) (\<lambda>n.
          block (map (\<lambda>i.
            when_p (ebind (ebind (subscr pet ''photos'') py_len) (\<lambda>m. Inr (i < m)))
              (bnd (lift (ebind (ebind (subscr pet ''photos'') (\<lambda>ps. index ps i))
                            (\<lambda>photo. subscr photo ''large''))) (\<lambda>url. emit (Image url))))
            [0..<min 3 n])))
       (emit (Image (JStr ''https://via.placeholder.com/500x300?text=No+Image'')))"

text \<open>
  Lines 325-345: \<^verbatim>\<open>breed_text\<close> is built without the card's test of
  \<^verbatim>\<open>pet['breeds']['primary']\<close>; the five f-strings and the colours are evaluated before
  the first line is shown.
\<close>

definition detail_lines :: "json \<Rightarrow> py_error + fstring list" where
  "detail_lines pet =
     ebind (breed_text pet) (\<lambda>breed.
     ebind (subscr pet ''type'') (\<lambda>type.
     ebind (subscr pet ''age'') (\<lambda>age.
     ebind (subscr pet ''gender'') (\<lambda>gender.
     ebind (subscr pet ''size'') (\<lambda>size.
     ebind (colors pet) (\<lambda>cs.
     ebind (if cs \<noteq> [] then ebind (py_join '', '' cs) (\<lambda>joined.
              Inr [[Lit ''**Colors:** '', Lit joined]]) else Inr []) (\<lambda>color_line.
       Inr ([Lit ''**Type:** '' # fmt type,
             Lit ''**Breed:** '' # fmt_val breed,
             Lit ''**Age:** '' # fmt age,
             Lit ''**Gender:** '' # fmt gender,
             Lit ''**Size:** '' # fmt size] @ color_line))))))))"

text \<open>Lines 354-358.\<close>

definition detail_description :: "json \<Rightarrow> unit prog" where
  "detail_description pet =
     when_p (is_true (subscr pet ''description''))
       (when_p (is_true (subscr pet ''description''))
          (block
            [emit (Markdown [Lit ''### About'']),
             bnd (lift (description_html 500 pet)) (\<lambda>html. emit (Markdown html))]))"

text \<open>Lines 368-377: the contact lines are collected first and shown afterwards.\<close>

definition contact_info :: "json \<Rightarrow> py_error + fstring list" where
  "contact_info pet =
     ebind (path pet [''contact'', ''email'']) (\<lambda>email.
     ebind (path pet [''contact'', ''phone'']) (\<lambda>phone.
     ebind (py_and (is_true (path pet [''contact'', ''address'', ''city'']))
              (is_true (path pet [''contact'', ''address'', ''state'']))) (\<lambda>located.
     ebind (if located then
              ebind (path pet [''contact'', ''address'', ''city'']) (\<lambda>city.
              ebind (path pet [''contact'', ''address'', ''state'']) (\<lambda>state.
              ebind (path pet [''contact'', ''address'', ''postcode'']) (\<lambda>postcode.
                Inr [Lit ''**Location:** '' # fmt city @ Lit '', '' # fmt state @ Lit '' ''
                     # (if truthy postcode then fmt postcode else [Lit []])])))
            else Inr []) (\<lambda>location_line.
       Inr ((if truthy email then [Lit ''**Email:** '' # fmt email] else [])
          @ (if truthy phone then [Lit ''**Phone:** '' # fmt phone] else [])
          @ location_line)))))"

text \<open>Lines 384-394: the detail page's favourites button.\<close>

definition detail_favorite_button :: "env \<Rightarrow> json \<Rightarrow> json \<Rightarrow> string \<Rightarrow> string \<Rightarrow> unit prog"
  where
  "detail_favorite_button e pet pet_id context tab_id =
     bnd (lift (subscr pet ''id'')) (\<lambda>i.
     bnd get_session (\<lambda>s.
     bnd (lift (favorite_ids (favorites s))) (\<lambda>ids.
       if \<not> list_ex (py_eq i) ids then
         bnd (button e ''Add to Favorites'' (widget_key ''add_fav_'' tab_id context pet_id))
           (\<lambda>pressed.
           if pressed then
             bnd (set_session (\<lambda>s. s\<lparr>favorites := favorites s @ [pet]\<rparr>)) (\<lambda>_.
             bnd (lift (subscr pet ''name'')) (\<lambda>name.
             bnd (emit (Success_box (Lit ''Added '' # fmt name @ [Lit '' to favorites!'']))) (\<lambda>_.
               stop Rerun)))
           else ret ())
       else
         bnd (button e ''Remove from Favorites'' (widget_key ''rem_fav_'' tab_id context pet_id))
           (\<lambda>pressed.
           if pressed then
             bnd get_session (\<lambda>s.
             bnd (lift (without_id pet (favorites s))) (\<lambda>kept.
             bnd (set_session (\<lambda>s. s\<lparr>favorites := kept\<rparr>)) (\<lambda>_.
             bnd (lift (subscr pet ''name'')) (\<lambda>name.
             bnd (emit (Success_box (Lit ''Removed '' # fmt name @ [Lit '' from favorites!'']))) (\<lambda>_.
               stop Rerun)))))
           else ret ()))))"

text \<open>Lines 299-394: the page once the record has been fetched.\<close>

definition detail_page :: "env \<Rightarrow> json \<Rightarrow> json \<Rightarrow> string \<Rightarrow> string \<Rightarrow> unit prog" where
  "detail_page e pet pet_id context tab_id =
     block
      [bnd (button e ''U+2190 Back to Search Results'' (widget_key ''back_'' tab_id context pet_id))
         (\<lambda>pressed.
           if pressed then bnd (set_session (\<lambda>s. s\<lparr>selected_pet := JNull\<rparr>)) (\<lambda>_. stop Rerun)
           else ret ()),
       detail_header pet,
       detail_photos pet,
       emit (Markdown [Lit ''### Details'']),
       bnd (lift (detail_lines pet)) (\<lambda>details. block (map (\<lambda>d. emit (Markdown d)) details)),
       emit (Markdown [Lit ''### Compatibility'']),
       bnd (lift (get_compatibility_message pet)) (\<lambda>compatibility.
         block (map (\<lambda>msg. emit (Markdown [Lit msg])) compatibility)),
       detail_description pet,
       emit (Markdown [Lit ''### Adoption Information'']),
       when_p (is_true (subscr pet ''organization_id''))
         (bnd (lift (subscr pet ''organization_id'')) (\<lambda>org.
            emit (Markdown (Lit ''**Organization:** '' # fmt org)))),
       bnd (lift (contact_info pet)) (\<lambda>infos. block (map (\<lambda>i. emit (Markdown i)) infos)),
       when_p (is_true (subscr pet ''url''))
         (bnd (lift (subscr pet ''url'')) (\<lambda>url.
            emit (Markdown (Lit ''[View on Petfinder]('' # fmt url @ [Lit '')'']))))
       ,
       detail_favorite_button e pet pet_id context tab_id]"

definition display_pet_details :: "env \<Rightarrow> json \<Rightarrow> string \<Rightarrow> string \<Rightarrow> unit prog" where
  "display_pet_details e pet_id context tab_id =
     bnd (get_pet_details e pet_id) (\<lambda>pet.
       if \<not> truthy pet then
         emit (Error_box [Lit ''Unable to retrieve pet details. Please try again.''])
       else detail_page e pet pet_id context tab_id)"

subsection \<open>The script's main function (lines 465-605)\<close>

text \<open>The form as it stands before the user touches it (lines 484-507).\<close>

definition default_form :: search_form where
  "default_form = \<lparr>animal_type = ''Dog'', location = [], distance = 50,
     age = ''Doesn't Matter'', size_sel = ''Doesn't Matter'', gender = ''Doesn't Matter'',
     good_with_children = False, good_with_dogs = False, good_with_cats = False,
     house_trained = False, special_needs = False\<rparr>"

text \<open>
  Lines 513-540: the query parameters. \<^verbatim>\<open>animal_type.split(" ")[0]\<close> is the text before
  the first space; \<^verbatim>\<open>params[k] = v\<close> on a key that is not yet there appends the binding.
\<close>

definition build_params :: "search_form \<Rightarrow> (string \<times> json) list" where
  "build_params f =
     (let params = [(''type'', JStr (takeWhile (\<lambda>c. c \<noteq> CHR '' '') (animal_type f))),
                    (''location'', JStr (location f)),
                    (''distance'', JNum (distance f)),
                    (''status'', JStr ''adoptable''),
                    (''sort'', JStr ''distance''),
                    (''limit'', JNum 100)];
          params = (if age f \<noteq> ''Doesn't Matter''
                    then AList.update ''age'' (JStr (age f)) params else params);
          params = (if size_sel f \<noteq> ''Doesn't Matter''
                    then AList.update ''size'' (JStr (size_sel f)) params else params);
          params = (if gender f \<noteq> ''Doesn't Matter''
                    then AList.update ''gender'' (JStr (gender f)) params else params);
          params = (if good_with_children f
                    then AList.update ''good_with_children'' (JNum 1) params else params);
          params = (if good_with_dogs f
                    then AList.update ''good_with_dogs'' (JNum 1) params else params);
          params = (if good_with_cats f
                    then AList.update ''good_with_cats'' (JNum 1) params else params);
          params = (if house_trained f
                    then AList.update ''house_trained'' (JNum 1) params else params);
          params = (if special_needs f
                    then AList.update ''special_needs'' (JNum 1) params else params)
      in params)"

text \<open>Lines 511-549: what a submitted form does.\<close>

definition submit_search :: "env \<Rightarrow> unit prog" where
  "submit_search e =
     bnd (search_pets e (build_params (form e))) (\<lambda>results.
       if_p (py_and (Inr (truthy results)) (contains ''animals'' results))
         (block
           [set_session (\<lambda>s. s\<lparr>search_results := results\<rparr>),
            set_session (\<lambda>s. s\<lparr>page := 1\<rparr>),
            bnd (lift (ebind (subscr results ''animals'') py_len)) (\<lambda>n.
              emit (Success_box [Lit ''Found '', Str (JNum (int n)), Lit '' pets!'']))])
         (emit (Error_box [Lit ''No pets found with those criteria. Try expanding your search.''])))"

text \<open>Lines 557 and 568-569.\<close>

definition total_pages :: "nat \<Rightarrow> int" where
  "total_pages n = (int n + 9) div 10"

definition start_idx :: "int \<Rightarrow> int" where
  "start_idx p = (p - 1) * 10"

definition end_idx :: "int \<Rightarrow> nat \<Rightarrow> int" where
  "end_idx p n = min (start_idx p + 10) (int n)"

text \<open>
  Lines 560-565. \<^verbatim>\<open>st.slider("Page", 1, total_pages, st.session_state.page)\<close> refuses a
  default outside its range; it returns the position the user chose, or the default.
\<close>

definition page_selector :: "env \<Rightarrow> int \<Rightarrow> unit prog" where
  "page_selector e last_page =
     bnd get_session (\<lambda>s.
       if page s < 1 \<or> last_page < page s then stop (Raised StreamlitAPIException)
       else
         let chosen = (case page_choice e of
                         None \<Rightarrow> page s
                       | Some p \<Rightarrow> if 1 \<le> p \<and> p \<le> last_page then p else page s)
         in bnd (emit (Slider 1 last_page chosen)) (\<lambda>_.
              if chosen \<noteq> page s then set_session (\<lambda>s. s\<lparr>page := chosen\<rparr>) else ret ()))"

text \<open>Lines 552-573: the result list.\<close>

definition show_results :: "env \<Rightarrow> unit prog" where
  "show_results e =
     bnd get_session (\<lambda>s.
       when_p (py_and (Inr (truthy (search_results s))) (contains ''animals'' (search_results s)))
         (block
           [emit (Markdown [Lit ''### Search Results'']),
            bnd (lift (subscr (search_results s) ''animals'')) (\<lambda>results.
            bnd (lift (py_len results)) (\<lambda>n.
            bnd (if total_pages n > 1 then page_selector e (total_pages n) else ret ()) (\<lambda>_.
            bnd get_session (\<lambda>s'.
            bnd (lift (ebind (py_slice results (start_idx (page s')) (end_idx (page s') n)) py_iter))
              (\<lambda>pets.
              block (map (\<lambda>pet.
                block [emit (Markdown [Lit ''---'']),
                       display_pet_card e pet False ''search'' ''tab1'']) pets))))))]))"

text \<open>Lines 473-573: the Search tab.\<close>

definition search_tab :: "env \<Rightarrow> unit prog" where
  "search_tab e =
     bnd get_session (\<lambda>s.
       if truthy (selected_pet s) then display_pet_details e (selected_pet s) ''search'' ''tab1''
       else
         block
          [emit Search_form,
           if submitted e then submit_search e else ret (),
           show_results e])"

text \<open>Lines 575-587: the Favorites tab.\<close>

definition favorites_tab :: "env \<Rightarrow> unit prog" where
  "favorites_tab e =
     block
      [emit (Markdown [Lit ''### Your Favorite Pets'']),
       bnd get_session (\<lambda>s.
         if favorites s = [] then
           emit (Info_box [Lit ''You haven't added any pets to your favorites yet. Start searching to find your perfect match!''])
         else if truthy (selected_pet s) then
           display_pet_details e (selected_pet s) ''favorites'' ''tab2''
         else
           block (map (\<lambda>pet.
             block [emit (Markdown [Lit ''---'']),
                    display_pet_card e pet True ''favorites'' ''tab2'']) (favorites s)))]"

definition main :: "env \<Rightarrow> unit prog" where
  "main e =
     block
      [emit (Markdown [Lit ''<h1 class='main-header'>U+1F43E PetMatch</h1>'']),
       emit (Markdown [Lit ''<p class='sub-header'>Find your perfect pet companion</p>'']),
       search_tab e,
       favorites_tab e,
       emit (Markdown [Lit ''### About PetMatch'']),
       emit (Markdown [Lit ''About text (lines 591-605)''])]"

subsection \<open>Sample inputs\<close>

text \<open>A record as the upstream API sends it, with the parts the examples vary left open.\<close>

definition sample_pet :: "json \<Rightarrow> json \<Rightarrow> json \<Rightarrow> json \<Rightarrow> json" where
  "sample_pet pet_id breeds environment description =
     JObj [(''id'', pet_id), (''organization_id'', JStr ''NY123''),
           (''url'', JStr ''https://www.petfinder.com/dog/rex''),
           (''type'', JStr ''Dog''), (''breeds'', breeds),
           (''colors'', JObj [(''primary'', JStr ''Black''), (''secondary'', JNull),
                              (''tertiary'', JNull)]),
           (''age'', JStr ''Adult''), (''gender'', JStr ''Male''), (''size'', JStr ''Large''),
           (''attributes'', JObj [(''spayed_neutered'', JBool True),
                                  (''house_trained'', JBool False),
                                  (''special_needs'', JBool False),
                                  (''shots_current'', JBool True)]),
           (''environment'', environment),
           (''name'', JStr ''Rex''), (''description'', description), (''photos'', JArr []),
           (''status'', JStr ''adoptable''),
           (''contact'', JObj [(''email'', JStr ''adopt@example.org''), (''phone'', JNull),
                               (''address'', JObj [(''city'', JStr ''New York''),
                                                   (''state'', JStr ''NY''),
                                                   (''postcode'', JStr ''10001'')])])]"

definition labrador :: json where
  "labrador = JObj [(''primary'', JStr ''Labrador Retriever''), (''secondary'', JNull),
                    (''mixed'', JBool False), (''unknown'', JBool False)]"

definition unknown_primary :: json where
  "unknown_primary = JObj [(''primary'', JNull), (''secondary'', JStr ''Poodle''),
                           (''mixed'', JBool True), (''unknown'', JBool False)]"

definition no_dogs :: json where
  "no_dogs = JObj [(''children'', JBool True), (''dogs'', JBool False), (''cats'', JNull)]"

definition rex :: "int \<Rightarrow> json" where
  "rex i = sample_pet (JNum i) labrador no_dogs (JStr ''A friendly dog.'')"

text \<open>
  An upstream that grants the token \<^verbatim>\<open>T1\<close> for an hour and answers the search and the
  record requests with the given bodies; and one that cannot be reached.
\<close>

definition upstream :: "json \<Rightarrow> json \<Rightarrow> nat \<Rightarrow> request \<Rightarrow> http_result" where
  "upstream search_body record_body k r =
     (case r of
        POST url data \<Rightarrow>
          Response (JObj [(''token_type'', JStr ''Bearer''), (''expires_in'', JNum 3600),
                          (''access_token'', JStr ''T1'')])
      | GET url token params \<Rightarrow>
          if url = [Lit ''https://api.petfinder.com/v2/animals''] then Response search_body
          else Response record_body)"

definition offline :: "nat \<Rightarrow> request \<Rightarrow> http_result" where
  "offline k r = RequestException ''connection refused''"

text \<open>
  A run at time 1000 (the clock advances one second per reading), with or without the two
  credentials in the process environment, the form asking for dogs near 10001, and the
  listed widget keys clicked.
\<close>

definition sample_env :: "bool \<Rightarrow> (nat \<Rightarrow> request \<Rightarrow> http_result) \<Rightarrow> bool \<Rightarrow> fstring list \<Rightarrow> env"
  where
  "sample_env configured answers submit clicks =
     \<lparr>environ = (\<lambda>k. if configured \<and> (k = ''PETFINDER_API_KEY'' \<or> k = ''PETFINDER_API_SECRET'')
                      then Some (''value-of-'' @ k) else None),
      secrets = (\<lambda>k. None),
      clock = (\<lambda>k. 1000 + real k),
      http = answers,
      form = default_form\<lparr>location := ''10001''\<rparr>,
      submitted = submit,
      clicked = (\<lambda>k. k \<in> set clicks),
      page_choice = None\<rparr>"

text \<open>
  A world at the start of a run whose session caches the token \<^verbatim>\<open>T0\<close> until the given
  time and holds the given results, selection, page and favourites.
\<close>

definition sample_world :: "real \<Rightarrow> json \<Rightarrow> json \<Rightarrow> int \<Rightarrow> json list \<Rightarrow> world" where
  "sample_world expires results selected current_page favs =
     \<lparr>session = \<lparr>access_token = JStr ''T0'', token_expires = expires, search_results = results,
                  selected_pet = selected, page = current_page, favorites = favs\<rparr>,
      issued = [], ticks = 0, screen = []\<rparr>"

text \<open>
  An upstream answer to a search that matched nothing; a record whose primary breed is
  unknown; a description of 520 characters; an answer with two records; twelve results;
  and a form with some filters set.
\<close>

definition no_matches :: json where
  "no_matches = JObj [(''animals'', JArr []),
     (''pagination'', JObj [(''count_per_page'', JNum 100), (''total_count'', JNum 0),
                            (''current_page'', JNum 1), (''total_pages'', JNum 0)])]"

definition shy_dog :: json where
  "shy_dog = sample_pet (JNum 7) unknown_primary no_dogs (JStr ''A shy dog.'')"


definition two_dogs :: json where
  "two_dogs = JObj [(''animals'', JArr [rex 1, rex 2])]"


definition picky_form :: search_form where
  "picky_form = default_form\<lparr>animal_type := ''Small & Furry'', location := ''Austin, TX'',
     distance := 100, age := ''Young'', gender := ''Female'', good_with_cats := True\<rparr>"

subsection \<open>The specification's wording, to compare the script with\<close>

text \<open>
  The ternary reading of an environment flag, as the specification words it: an unknown
  flag (absent or \<^verbatim>\<open>null\<close>) gives no statement, a true flag the positive statement, a
  false flag the negative one.
\<close>

definition spec_flag_statement :: "json option \<Rightarrow> string \<Rightarrow> string \<Rightarrow> string list" where
  "spec_flag_statement flag pos neg =
     (case flag of
        None \<Rightarrow> []
      | Some JNull \<Rightarrow> []
      | Some v \<Rightarrow> [if truthy v then pos else neg])"

text \<open>An attribute flag that is present and true.\<close>

definition flag_on :: "(string \<times> json) list \<Rightarrow> string \<Rightarrow> bool" where
  "flag_on attrs k = (case map_of attrs k of None \<Rightarrow> False | Some v \<Rightarrow> truthy v)"

section \<open>Properties\<close>

subsection \<open>Unfolding the statements of the script\<close>

lemmas prog_defs = bnd_def ret_def stop_def lift_def get_session_def set_session_def emit_def
  time_time_def send_def if_p_def when_p_def button_def ebind_def py_and_def py_or_def
  is_true_def





lemmas sample_defs = sample_env_def sample_world_def upstream_def offline_def credential_def
  token_request_def token_url_def

subsection \<open>Facts about the pieces\<close>

lemma refresh_token_frame:
  "search_results (session (snd (refresh_token e w))) = search_results (session w)
   \<and> selected_pet (session (snd (refresh_token e w))) = selected_pet (session w)
   \<and> page (session (snd (refresh_token e w))) = page (session w)
   \<and> favorites (session (snd (refresh_token e w))) = favorites (session w)"
  by (simp add: refresh_token_def prog_defs
        split: option.splits http_result.splits sum.splits prod.splits)

lemma get_access_token_frame:
  "search_results (session (snd (get_access_token e w))) = search_results (session w)
   \<and> selected_pet (session (snd (get_access_token e w))) = selected_pet (session w)
   \<and> page (session (snd (get_access_token e w))) = page (session w)
   \<and> favorites (session (snd (get_access_token e w))) = favorites (session w)"
proof -
  let ?w = "w\<lparr>ticks := Suc (ticks w)\<rparr>"
  have "get_access_token e w = refresh_token e w \<or> get_access_token e w = refresh_token e ?w
    \<or> get_access_token e w = (Inr (access_token (session w)), ?w)"
    by (auto simp add: get_access_token_def prog_defs)
  with refresh_token_frame [of e w] refresh_token_frame [of e ?w] show ?thesis
    by auto
qed


lemma search_pets_frame:
  "search_results (session (snd (search_pets e params w))) = search_results (session w)
   \<and> selected_pet (session (snd (search_pets e params w))) = selected_pet (session w)
   \<and> page (session (snd (search_pets e params w))) = page (session w)
   \<and> favorites (session (snd (search_pets e params w))) = favorites (session w)"
  using get_access_token_frame [of e w]
  by (cases "get_access_token e w")
     (auto simp add: search_pets_def prog_defs split: sum.splits http_result.splits)

lemma py_eq_sym: "py_eq a b = py_eq b a"
  by (auto simp add: py_eq_def)

lemma without_id_absent:
  assumes "subscr pet ''id'' = Inr i"
  shows "favorite_ids favs = Inr ids \<Longrightarrow> \<not> list_ex (py_eq i) ids \<Longrightarrow> without_id pet favs = Inr favs"
proof (induction favs arbitrary: ids)
  case Nil
  then show ?case by (simp add: without_id_def)
next
  case (Cons p favs)
  from Cons.prems(1) obtain j js where j: "subscr p ''id'' = Inr j"
    and js: "favorite_ids favs = Inr js" and ids: "ids = j # js"
    by (auto simp add: favorite_ids_def ebind_def split: sum.splits)
  from Cons.prems(2) ids have "\<not> py_eq i j" and "\<not> list_ex (py_eq i) js" by simp_all
  then have "without_id pet favs = Inr favs" and "\<not> py_eq j i"
    using Cons.IH [OF js] py_eq_sym [of i j] by blast+
  with j assms show ?case
    by (simp add: without_id_def ebind_def)
qed

lemma map_of_if_update:
  "map_of (if c then AList.update k v al else al) k' =
     (if c \<and> k' = k then Some v else map_of al k')"
  by (simp add: update_conv')

lemma distinct_if_update:
  "distinct (map fst al) \<Longrightarrow> distinct (map fst (if c then AList.update k v al else al))"
  by (simp add: distinct_update)





lemma environment_message_object:
  assumes "subscr pet ''environment'' = Inr (JObj env)"
  shows "environment_message pet k pos neg = Inr (spec_flag_statement (map_of env k) pos neg)"
  using assms
  by (cases "map_of env k")
     (auto simp add: environment_message_def spec_flag_statement_def prog_defs split: json.splits)

lemma attribute_set_object:
  assumes "subscr pet ''attributes'' = Inr (JObj attrs)"
  shows "attribute_set pet k = Inr (flag_on attrs k)"
  using assms
  by (cases "map_of attrs k") (auto simp add: attribute_set_def flag_on_def prog_defs)

lemma attribute_messages_object:
  assumes "subscr pet ''attributes'' = Inr (JObj attrs)"
  shows "attribute_messages pet =
     Inr ((if flag_on attrs ''special_needs'' then [''U+26A0 Has special needs''] else [])
        @ (if flag_on attrs ''house_trained'' then [''U+2705 House-trained'']
           else if map_of attrs ''house_trained'' \<noteq> None then [''U+274C Not house-trained'']
           else [])
        @ (if flag_on attrs ''shots_current'' then [''U+2705 Vaccinations up to date''] else [])
        @ (if flag_on attrs ''spayed_neutered'' then [''U+2705 Spayed/neutered''] else []))"
proof (cases "attrs = []")
  case True
  with assms show ?thesis by (simp add: attribute_messages_def prog_defs flag_on_def)
next
  case False
  with assms show ?thesis
    unfolding attribute_messages_def attribute_set_object [OF assms]
    by (simp add: prog_defs)
qed





lemmas pet_defs = rex_def sample_pet_def labrador_def no_dogs_def

lemmas card_defs = display_pet_card_def card_photo_def has_photos_def card_tags_def
  optional_tag_def card_breed_def breed_text_def card_colors_def colors_def card_location_def
  card_description_def description_html_def card_buttons_def widget_key_def favorite_ids_def
  without_id_def py_eq_def slice_def clamp_index_def

lemmas detail_defs = display_pet_details_def detail_page_def detail_header_def detail_photos_def
  detail_lines_def detail_description_def contact_info_def detail_favorite_button_def
  get_compatibility_message_def environment_message_def attribute_messages_def
  attribute_set_def get_pet_details_def

lemmas main_defs = main_def search_tab_def favorites_tab_def show_results_def submit_search_def
  page_selector_def total_pages_def start_idx_def end_idx_def search_pets_def
  get_access_token_def refresh_token_def build_params_def default_form_def


text \<open>The model runs through on records shaped as the upstream API sends them.\<close>

lemma detail_page_labrador:
  "fst (display_pet_details
         (sample_env True (upstream JNull (JObj [(''animal'', rex 1)])) False [])
         (JNum 1) ''search'' ''tab1'' (sample_world 5000 JNull (JNum 1) 1 []))
     = Inr ()"
  by (simp add: detail_defs card_defs get_access_token_def prog_defs sample_defs pet_defs)

lemma main_renders_results_and_favorites:
  "fst (main (sample_env True offline False []) (sample_world 5000 two_dogs JNull 1 [rex 1]))
     = Inr ()"
  by (simp add: main_defs card_defs prog_defs sample_defs pet_defs two_dogs_def)

subsection \<open>Credential manager\<close>






subsection \<open>Compatibility messages\<close>

text \<open>
  Claim C5. For a record whose \<^verbatim>\<open>environment\<close> and \<^verbatim>\<open>attributes\<close> are JSON objects,
  \<^verbatim>\<open>get_compatibility_message\<close> returns the statements for children, dogs and cats, each
  read ternarily from its flag (absent or \<^verbatim>\<open>null\<close>: none; true: the positive one; false:
  the negative one), followed by special needs, house training, vaccination and
  spay/neuter, in this order. With \<^verbatim>\<open>dogs = false\<close> and \<^verbatim>\<open>cats = null\<close> the result holds the
  negative dogs statement exactly once, and neither the positive dogs statement nor any
  cats statement.
\<close>

theorem compatibility_messages_ternary:
  assumes "subscr pet ''environment'' = Inr (JObj env)"
    and "subscr pet ''attributes'' = Inr (JObj attrs)"
  shows "get_compatibility_message pet =
      Inr (spec_flag_statement (map_of env ''children'') ''U+2705 Good with children''
             ''U+274C Not recommended for homes with children''
         @ spec_flag_statement (map_of env ''dogs'') ''U+2705 Good with dogs''
             ''U+274C Not recommended for homes with dogs''
         @ spec_flag_statement (map_of env ''cats'') ''U+2705 Good with cats''
             ''U+274C Not recommended for homes with cats''
         @ (if flag_on attrs ''special_needs'' then [''U+26A0 Has special needs''] else [])
         @ (if flag_on attrs ''house_trained'' then [''U+2705 House-trained'']
            else if map_of attrs ''house_trained'' \<noteq> None then [''U+274C Not house-trained'']
            else [])
         @ (if flag_on attrs ''shots_current'' then [''U+2705 Vaccinations up to date''] else [])
         @ (if flag_on attrs ''spayed_neutered'' then [''U+2705 Spayed/neutered''] else []))
    \<and> spec_flag_statement None pos neg = []
    \<and> spec_flag_statement (Some JNull) pos neg = []
    \<and> spec_flag_statement (Some (JBool True)) pos neg = [pos]
    \<and> spec_flag_statement (Some (JBool False)) pos neg = [neg]
    \<and> (map_of env ''dogs'' = Some (JBool False) \<and> map_of env ''cats'' = Some JNull \<longrightarrow>
         (\<exists>msgs. get_compatibility_message pet = Inr msgs
            \<and> count_list msgs ''U+274C Not recommended for homes with dogs'' = 1
            \<and> count_list msgs ''U+2705 Good with dogs'' = 0
            \<and> count_list msgs ''U+2705 Good with cats'' = 0
            \<and> count_list msgs ''U+274C Not recommended for homes with cats'' = 0))"
proof -
  let ?care = "(if flag_on attrs ''special_needs'' then [''U+26A0 Has special needs''] else [])
         @ (if flag_on attrs ''house_trained'' then [''U+2705 House-trained'']
            else if map_of attrs ''house_trained'' \<noteq> None then [''U+274C Not house-trained'']
            else [])
         @ (if flag_on attrs ''shots_current'' then [''U+2705 Vaccinations up to date''] else [])
         @ (if flag_on attrs ''spayed_neutered'' then [''U+2705 Spayed/neutered''] else [])"
  let ?children = "spec_flag_statement (map_of env ''children'') ''U+2705 Good with children''
             ''U+274C Not recommended for homes with children''"
  have whole: "get_compatibility_message pet =
      Inr (?children
         @ spec_flag_statement (map_of env ''dogs'') ''U+2705 Good with dogs''
             ''U+274C Not recommended for homes with dogs''
         @ spec_flag_statement (map_of env ''cats'') ''U+2705 Good with cats''
             ''U+274C Not recommended for homes with cats''
         @ ?care)"
    unfolding get_compatibility_message_def environment_message_object [OF assms(1)]
      attribute_messages_object [OF assms(2)]
    by (simp add: ebind_def)
  have flags: "spec_flag_statement None pos neg = []"
    "spec_flag_statement (Some JNull) pos neg = []"
    "spec_flag_statement (Some (JBool True)) pos neg = [pos]"
    "spec_flag_statement (Some (JBool False)) pos neg = [neg]"
    by (simp_all add: spec_flag_statement_def)
  have children: "count_list ?children ''U+274C Not recommended for homes with dogs'' = 0"
    "count_list ?children ''U+2705 Good with dogs'' = 0"
    "count_list ?children ''U+2705 Good with cats'' = 0"
    "count_list ?children ''U+274C Not recommended for homes with cats'' = 0"
    by (simp_all add: spec_flag_statement_def split: option.splits json.splits)
  have care: "count_list ?care ''U+274C Not recommended for homes with dogs'' = 0"
    "count_list ?care ''U+2705 Good with dogs'' = 0"
    "count_list ?care ''U+2705 Good with cats'' = 0"
    "count_list ?care ''U+274C Not recommended for homes with cats'' = 0"
    by simp_all
  have dogs: "count_list (spec_flag_statement (Some (JBool False)) ''U+2705 Good with dogs''
        ''U+274C Not recommended for homes with dogs'') m =
      (if m = ''U+274C Not recommended for homes with dogs'' then 1 else 0)" for m
    by (simp add: spec_flag_statement_def)
  have cats: "spec_flag_statement (Some JNull) ''U+2705 Good with cats''
        ''U+274C Not recommended for homes with cats'' = []"
    by (simp add: spec_flag_statement_def)
  have particular: "\<exists>msgs. get_compatibility_message pet = Inr msgs
            \<and> count_list msgs ''U+274C Not recommended for homes with dogs'' = 1
            \<and> count_list msgs ''U+2705 Good with dogs'' = 0
            \<and> count_list msgs ''U+2705 Good with cats'' = 0
            \<and> count_list msgs ''U+274C Not recommended for homes with cats'' = 0"
    if "map_of env ''dogs'' = Some (JBool False) \<and> map_of env ''cats'' = Some JNull"
    unfolding whole using that children care
    by (simp add: dogs cats del: count_list.simps)
  from whole flags particular show ?thesis by blast
qed

theorem compatibility_messages_ternary_witness:
  "get_compatibility_message (rex 1) =
     Inr [''U+2705 Good with children'', ''U+274C Not recommended for homes with dogs'',
          ''U+274C Not house-trained'', ''U+2705 Vaccinations up to date'',
          ''U+2705 Spayed/neutered'']"
  using compatibility_messages_ternary [of "rex 1"
      "[(''children'', JBool True), (''dogs'', JBool False), (''cats'', JNull)]"
      "[(''spayed_neutered'', JBool True), (''house_trained'', JBool False),
        (''special_needs'', JBool False), (''shots_current'', JBool True)]"]
  by (simp add: rex_def sample_pet_def no_dogs_def spec_flag_statement_def flag_on_def)

subsection \<open>Description truncation\<close>



subsection \<open>Query construction\<close>

text \<open>
  Claim C2. In the parameters built from a submitted form, \<^verbatim>\<open>age\<close>, \<^verbatim>\<open>size\<close> and \<^verbatim>\<open>gender\<close> are
  absent when their select box stands at \<^verbatim>\<open>Doesn't Matter\<close> and carry the selected text
  otherwise; each of the five checkbox keys is absent when its box is unchecked and is
  the integer 1 when it is checked; no key occurs twice; and the form asking for
  \<^verbatim>\<open>Dog\<close> near \<^verbatim>\<open>10001\<close> with everything else untouched gives exactly \<^verbatim>\<open>type\<close>,
  \<^verbatim>\<open>location\<close>, \<^verbatim>\<open>distance = 50\<close>, \<^verbatim>\<open>status = adoptable\<close>, \<^verbatim>\<open>sort = distance\<close> and
  \<^verbatim>\<open>limit = 100\<close>.
\<close>

theorem build_params_filters:
  "map_of (build_params f) ''age'' =
      (if age f = ''Doesn't Matter'' then None else Some (JStr (age f)))
   \<and> map_of (build_params f) ''size'' =
      (if size_sel f = ''Doesn't Matter'' then None else Some (JStr (size_sel f)))
   \<and> map_of (build_params f) ''gender'' =
      (if gender f = ''Doesn't Matter'' then None else Some (JStr (gender f)))
   \<and> map_of (build_params f) ''good_with_children'' =
      (if good_with_children f then Some (JNum 1) else None)
   \<and> map_of (build_params f) ''good_with_dogs'' =
      (if good_with_dogs f then Some (JNum 1) else None)
   \<and> map_of (build_params f) ''good_with_cats'' =
      (if good_with_cats f then Some (JNum 1) else None)
   \<and> map_of (build_params f) ''house_trained'' =
      (if house_trained f then Some (JNum 1) else None)
   \<and> map_of (build_params f) ''special_needs'' =
      (if special_needs f then Some (JNum 1) else None)
   \<and> distinct (map fst (build_params f))
   \<and> build_params (default_form\<lparr>animal_type := ''Dog'', location := ''10001''\<rparr>) =
       [(''type'', JStr ''Dog''), (''location'', JStr ''10001''), (''distance'', JNum 50),
        (''status'', JStr ''adoptable''), (''sort'', JStr ''distance''), (''limit'', JNum 100)]"
proof (intro conjI)
  show "map_of (build_params f) ''age'' =
      (if age f = ''Doesn't Matter'' then None else Some (JStr (age f)))"
    unfolding build_params_def Let_def map_of_if_update by simp
  show "map_of (build_params f) ''size'' =
      (if size_sel f = ''Doesn't Matter'' then None else Some (JStr (size_sel f)))"
    unfolding build_params_def Let_def map_of_if_update by simp
  show "map_of (build_params f) ''gender'' =
      (if gender f = ''Doesn't Matter'' then None else Some (JStr (gender f)))"
    unfolding build_params_def Let_def map_of_if_update by simp
  show "map_of (build_params f) ''good_with_children'' =
      (if good_with_children f then Some (JNum 1) else None)"
    unfolding build_params_def Let_def map_of_if_update by simp
  show "map_of (build_params f) ''good_with_dogs'' =
      (if good_with_dogs f then Some (JNum 1) else None)"
    unfolding build_params_def Let_def map_of_if_update by simp
  show "map_of (build_params f) ''good_with_cats'' =
      (if good_with_cats f then Some (JNum 1) else None)"
    unfolding build_params_def Let_def map_of_if_update by simp
  show "map_of (build_params f) ''house_trained'' =
      (if house_trained f then Some (JNum 1) else None)"
    unfolding build_params_def Let_def map_of_if_update by simp
  show "map_of (build_params f) ''special_needs'' =
      (if special_needs f then Some (JNum 1) else None)"
    unfolding build_params_def Let_def map_of_if_update by simp
  show "distinct (map fst (build_params f))"
    unfolding build_params_def Let_def by (intro distinct_if_update) simp
  show "build_params (default_form\<lparr>animal_type := ''Dog'', location := ''10001''\<rparr>) =
       [(''type'', JStr ''Dog''), (''location'', JStr ''10001''), (''distance'', JNum 50),
        (''status'', JStr ''adoptable''), (''sort'', JStr ''distance''), (''limit'', JNum 100)]"
    by (simp add: build_params_def default_form_def)
qed

theorem build_params_filters_witness:
  "map_of (build_params picky_form) ''age'' = Some (JStr ''Young'')
   \<and> map_of (build_params picky_form) ''size'' = None
   \<and> map_of (build_params picky_form) ''gender'' = Some (JStr ''Female'')
   \<and> map_of (build_params picky_form) ''good_with_children'' = None
   \<and> map_of (build_params picky_form) ''good_with_dogs'' = None
   \<and> map_of (build_params picky_form) ''good_with_cats'' = Some (JNum 1)
   \<and> map_of (build_params picky_form) ''house_trained'' = None
   \<and> map_of (build_params picky_form) ''special_needs'' = None
   \<and> build_params picky_form =
       [(''type'', JStr ''Small''), (''location'', JStr ''Austin, TX''), (''distance'', JNum 100),
        (''status'', JStr ''adoptable''), (''sort'', JStr ''distance''), (''limit'', JNum 100),
        (''age'', JStr ''Young''), (''gender'', JStr ''Female''), (''good_with_cats'', JNum 1)]"
proof -
  have params: "build_params picky_form =
       [(''type'', JStr ''Small''), (''location'', JStr ''Austin, TX''), (''distance'', JNum 100),
        (''status'', JStr ''adoptable''), (''sort'', JStr ''distance''), (''limit'', JNum 100),
        (''age'', JStr ''Young''), (''gender'', JStr ''Female''), (''good_with_cats'', JNum 1)]"
    by (simp add: build_params_def picky_form_def default_form_def)
  have fields: "age picky_form = ''Young''" "size_sel picky_form = ''Doesn't Matter''"
    "gender picky_form = ''Female''" "\<not> good_with_children picky_form"
    "\<not> good_with_dogs picky_form" "good_with_cats picky_form" "\<not> house_trained picky_form"
    "\<not> special_needs picky_form"
    by (simp_all add: picky_form_def default_form_def)
  from build_params_filters [of picky_form] params show ?thesis
    by (simp only: fields) simp
qed

subsection \<open>Pagination\<close>



subsection \<open>Favourites\<close>

text \<open>
  Claim C4. Let the record have an id and a name and let every favourite have an id. On a
  card, pressing \<^verbatim>\<open>Add to Favorites\<close> when a favourite with the same id is already there
  returns normally and leaves the session, and so the list and its size, as it was;
  pressing \<^verbatim>\<open>Remove from Favorites\<close> when no favourite has that id leaves the session as
  it was and raises nothing (the run ends with \<^verbatim>\<open>st.rerun()\<close>). On the detail page a
  record that is already a favourite is offered only the remove button and one that is
  not only the add button, so there a click on the other action's key changes nothing.
\<close>

theorem favorites_idempotent:
  assumes "subscr pet ''id'' = Inr i" and "subscr pet ''name'' = Inr name"
    and "favorite_ids (favorites (session w)) = Inr ids"
  shows "(list_ex (py_eq i) ids \<and> \<not> clicked e (widget_key ''details_'' tab_id ctx i)
          \<and> clicked e (widget_key ''fav_'' tab_id ctx i) \<longrightarrow>
          fst (card_buttons e pet False ctx tab_id w) = Inr ()
          \<and> session (snd (card_buttons e pet False ctx tab_id w)) = session w
          \<and> length (favorites (session (snd (card_buttons e pet False ctx tab_id w))))
              = length (favorites (session w)))
       \<and> (\<not> list_ex (py_eq i) ids \<and> \<not> clicked e (widget_key ''details_'' tab_id ctx i)
          \<and> clicked e (widget_key ''unfav_'' tab_id ctx i) \<longrightarrow>
          fst (card_buttons e pet True ctx tab_id w) = Inl Rerun
          \<and> session (snd (card_buttons e pet True ctx tab_id w)) = session w
          \<and> length (favorites (session (snd (card_buttons e pet True ctx tab_id w))))
              = length (favorites (session w)))
       \<and> (list_ex (py_eq i) ids \<and> \<not> clicked e (widget_key ''rem_fav_'' tab_id ctx pet_id) \<longrightarrow>
          detail_favorite_button e pet pet_id ctx tab_id w =
            (Inr (), w\<lparr>screen := screen w @
               [Button ''Remove from Favorites'' (widget_key ''rem_fav_'' tab_id ctx pet_id)]\<rparr>))
       \<and> (\<not> list_ex (py_eq i) ids \<and> \<not> clicked e (widget_key ''add_fav_'' tab_id ctx pet_id) \<longrightarrow>
          detail_favorite_button e pet pet_id ctx tab_id w =
            (Inr (), w\<lparr>screen := screen w @
               [Button ''Add to Favorites'' (widget_key ''add_fav_'' tab_id ctx pet_id)]\<rparr>))"
proof (intro conjI impI)
  assume h: "list_ex (py_eq i) ids \<and> \<not> clicked e (widget_key ''details_'' tab_id ctx i)
          \<and> clicked e (widget_key ''fav_'' tab_id ctx i)"
  with assms have "card_buttons e pet False ctx tab_id w =
     (Inr (), w\<lparr>screen := screen w @
        [Button ''View Details'' (widget_key ''details_'' tab_id ctx i),
         Button ''Add to Favorites'' (widget_key ''fav_'' tab_id ctx i)]\<rparr>)"
    by (simp add: card_buttons_def prog_defs)
  then show "fst (card_buttons e pet False ctx tab_id w) = Inr ()"
    and "session (snd (card_buttons e pet False ctx tab_id w)) = session w"
    and "length (favorites (session (snd (card_buttons e pet False ctx tab_id w))))
              = length (favorites (session w))"
    by simp_all
next
  assume h: "\<not> list_ex (py_eq i) ids \<and> \<not> clicked e (widget_key ''details_'' tab_id ctx i)
          \<and> clicked e (widget_key ''unfav_'' tab_id ctx i)"
  with assms have kept: "without_id pet (favorites (session w)) = Inr (favorites (session w))"
    by (intro without_id_absent) auto
  from h assms have "card_buttons e pet True ctx tab_id w =
     (Inl Rerun, w\<lparr>screen := screen w @
        [Button ''View Details'' (widget_key ''details_'' tab_id ctx i),
         Button ''Remove from Favorites'' (widget_key ''unfav_'' tab_id ctx i),
         Success_box (Lit ''Removed '' # fmt name @ [Lit '' from favorites!''])]\<rparr>)"
    by (simp add: card_buttons_def prog_defs kept)
  then show "fst (card_buttons e pet True ctx tab_id w) = Inl Rerun"
    and "session (snd (card_buttons e pet True ctx tab_id w)) = session w"
    and "length (favorites (session (snd (card_buttons e pet True ctx tab_id w))))
              = length (favorites (session w))"
    by simp_all
next
  assume "list_ex (py_eq i) ids \<and> \<not> clicked e (widget_key ''rem_fav_'' tab_id ctx pet_id)"
  with assms show "detail_favorite_button e pet pet_id ctx tab_id w =
            (Inr (), w\<lparr>screen := screen w @
               [Button ''Remove from Favorites'' (widget_key ''rem_fav_'' tab_id ctx pet_id)]\<rparr>)"
    by (simp add: detail_favorite_button_def prog_defs)
next
  assume "\<not> list_ex (py_eq i) ids \<and> \<not> clicked e (widget_key ''add_fav_'' tab_id ctx pet_id)"
  with assms show "detail_favorite_button e pet pet_id ctx tab_id w =
            (Inr (), w\<lparr>screen := screen w @
               [Button ''Add to Favorites'' (widget_key ''add_fav_'' tab_id ctx pet_id)]\<rparr>)"
    by (simp add: detail_favorite_button_def prog_defs)
qed

theorem favorites_idempotent_witness:
  "favorites (session (snd (card_buttons
       (sample_env True offline False [widget_key ''fav_'' ''tab1'' ''search'' (JNum 1)])
       (rex 1) False ''search'' ''tab1'' (sample_world 5000 JNull JNull 1 [rex 1])))) = [rex 1]
   \<and> fst (card_buttons
       (sample_env True offline False [widget_key ''unfav_'' ''tab2'' ''favorites'' (JNum 2)])
       (rex 2) True ''favorites'' ''tab2'' (sample_world 5000 JNull JNull 1 [rex 1])) = Inl Rerun
   \<and> favorites (session (snd (card_buttons
       (sample_env True offline False [widget_key ''unfav_'' ''tab2'' ''favorites'' (JNum 2)])
       (rex 2) True ''favorites'' ''tab2'' (sample_world 5000 JNull JNull 1 [rex 1])))) = [rex 1]
   \<and> detail_favorite_button
       (sample_env True offline False [widget_key ''add_fav_'' ''tab1'' ''search'' (JNum 1)])
       (rex 1) (JNum 1) ''search'' ''tab1'' (sample_world 5000 JNull JNull 1 [rex 1]) =
       (Inr (), (sample_world 5000 JNull JNull 1 [rex 1])\<lparr>screen :=
          [Button ''Remove from Favorites'' (widget_key ''rem_fav_'' ''tab1'' ''search'' (JNum 1))]\<rparr>)
   \<and> detail_favorite_button
       (sample_env True offline False [widget_key ''rem_fav_'' ''tab1'' ''search'' (JNum 2)])
       (rex 2) (JNum 2) ''search'' ''tab1'' (sample_world 5000 JNull JNull 1 [rex 1]) =
       (Inr (), (sample_world 5000 JNull JNull 1 [rex 1])\<lparr>screen :=
          [Button ''Add to Favorites'' (widget_key ''add_fav_'' ''tab1'' ''search'' (JNum 2))]\<rparr>)"
proof -
  let ?w = "sample_world 5000 JNull JNull 1 [rex 1]"
  have ids: "favorite_ids (favorites (session ?w)) = Inr [JNum 1]"
    by (simp add: favorite_ids_def sample_world_def rex_def sample_pet_def ebind_def)
  have pets: "subscr (rex 1) ''id'' = Inr (JNum 1)" "subscr (rex 1) ''name'' = Inr (JStr ''Rex'')"
    "subscr (rex 2) ''id'' = Inr (JNum 2)" "subscr (rex 2) ''name'' = Inr (JStr ''Rex'')"
    by (simp_all add: rex_def sample_pet_def)
  have present: "list_ex (py_eq (JNum 1)) [JNum 1]" "\<not> list_ex (py_eq (JNum 2)) [JNum 1]"
    by (simp_all add: py_eq_def)
  have favs: "favorites (session ?w) = [rex 1]" "screen ?w = []"
    by (simp_all add: sample_world_def)
  note a = favorites_idempotent [OF pets(1) pets(2) ids,
      where e = "sample_env True offline False [widget_key ''fav_'' ''tab1'' ''search'' (JNum 1)]"
      and tab_id = "''tab1''" and ctx = "''search''" and pet_id = "JNum 1"]
  note b = favorites_idempotent [OF pets(3) pets(4) ids,
      where e = "sample_env True offline False [widget_key ''unfav_'' ''tab2'' ''favorites'' (JNum 2)]"
      and tab_id = "''tab2''" and ctx = "''favorites''" and pet_id = "JNum 2"]
  note c = favorites_idempotent [OF pets(1) pets(2) ids,
      where e = "sample_env True offline False [widget_key ''add_fav_'' ''tab1'' ''search'' (JNum 1)]"
      and tab_id = "''tab1''" and ctx = "''search''" and pet_id = "JNum 1"]
  note d = favorites_idempotent [OF pets(3) pets(4) ids,
      where e = "sample_env True offline False [widget_key ''rem_fav_'' ''tab1'' ''search'' (JNum 2)]"
      and tab_id = "''tab1''" and ctx = "''search''" and pet_id = "JNum 2"]
  have clicks:
    "clicked (sample_env True offline False [widget_key ''fav_'' ''tab1'' ''search'' (JNum 1)])
       (widget_key ''fav_'' ''tab1'' ''search'' (JNum 1))"
    "\<not> clicked (sample_env True offline False [widget_key ''fav_'' ''tab1'' ''search'' (JNum 1)])
       (widget_key ''details_'' ''tab1'' ''search'' (JNum 1))"
    "clicked (sample_env True offline False [widget_key ''unfav_'' ''tab2'' ''favorites'' (JNum 2)])
       (widget_key ''unfav_'' ''tab2'' ''favorites'' (JNum 2))"
    "\<not> clicked (sample_env True offline False [widget_key ''unfav_'' ''tab2'' ''favorites'' (JNum 2)])
       (widget_key ''details_'' ''tab2'' ''favorites'' (JNum 2))"
    "\<not> clicked (sample_env True offline False [widget_key ''add_fav_'' ''tab1'' ''search'' (JNum 1)])
       (widget_key ''rem_fav_'' ''tab1'' ''search'' (JNum 1))"
    "\<not> clicked (sample_env True offline False [widget_key ''rem_fav_'' ''tab1'' ''search'' (JNum 2)])
       (widget_key ''add_fav_'' ''tab1'' ''search'' (JNum 2))"
    by (simp_all add: sample_env_def widget_key_def)
  from a b c d present clicks show ?thesis
    by (simp add: favs)
qed

subsection \<open>Selecting a record and going back\<close>



subsection \<open>A search without matches\<close>

text \<open>
  Claim C6 says that a search answered with zero records stays on the form with an error
  message and does not populate the stored result set. The script does otherwise: line
  544 tests \<^verbatim>\<open>results and 'animals' in results\<close>, which the answer
  \<^verbatim>\<open>{"animals": [], "pagination": ...}\<close> passes, so the empty result is stored, the page is
  set to 1, the success message \<^verbatim>\<open>Found 0 pets!\<close> is shown in place of the message of line
  549, and the \<^verbatim>\<open>Search Results\<close> heading follows with no card under it.
\<close>

theorem empty_result_is_stored:
  "search_tab (sample_env True (upstream no_matches JNull) True [])
     (sample_world 5000 JNull JNull 1 []) =
   (Inr (),
    (sample_world 5000 no_matches JNull 1 [])\<lparr>issued :=
        [GET [Lit ''https://api.petfinder.com/v2/animals''] (JStr ''T0'')
           [(''type'', JStr ''Dog''), (''location'', JStr ''10001''), (''distance'', JNum 50),
            (''status'', JStr ''adoptable''), (''sort'', JStr ''distance''),
            (''limit'', JNum 100)]],
      ticks := 1,
      screen := [Search_form, Success_box [Lit ''Found '', Str (JNum 0), Lit '' pets!''],
                 Markdown [Lit ''### Search Results'']]\<rparr>)"
  by (simp add: search_tab_def submit_search_def show_results_def search_pets_def
      get_access_token_def build_params_def default_form_def total_pages_def start_idx_def
      end_idx_def slice_def clamp_index_def no_matches_def prog_defs sample_defs)

subsection \<open>A record without a primary breed\<close>

text \<open>
  Claim C7 says that both renderers complete on a record with a missing optional
  sub-field. For a record whose \<^verbatim>\<open>breeds.primary\<close> is \<^verbatim>\<open>null\<close> while \<^verbatim>\<open>breeds.secondary\<close> is
  present, the detail page raises \<^verbatim>\<open>TypeError\<close>: line 325 takes \<^verbatim>\<open>None\<close> for
  \<^verbatim>\<open>breed_text\<close> and line 327 applies \<^verbatim>\<open>+=\<close> with a string to it. The card guards the same
  lines with \<^verbatim>\<open>if pet['breeds']['primary']:\<close> (line 426) and completes.
\<close>

theorem detail_page_unknown_primary_breed:
  "fst (display_pet_details
         (sample_env True (upstream JNull (JObj [(''animal'', shy_dog)])) False [])
         (JNum 7) ''search'' ''tab1'' (sample_world 5000 JNull (JNum 7) 1 []))
     = Inl (Raised TypeError)
   \<and> breed_text shy_dog = Inl TypeError
   \<and> fst (display_pet_card
         (sample_env True (upstream JNull (JObj [(''animal'', shy_dog)])) False [])
         shy_dog False ''search'' ''tab1'' (sample_world 5000 JNull JNull 1 []))
     = Inr ()"
proof (intro conjI)
  show "breed_text shy_dog = Inl TypeError"
    by (simp add: breed_text_def ebind_def shy_dog_def unknown_primary_def pet_defs)
  show "fst (display_pet_details
         (sample_env True (upstream JNull (JObj [(''animal'', shy_dog)])) False [])
         (JNum 7) ''search'' ''tab1'' (sample_world 5000 JNull (JNum 7) 1 []))
     = Inl (Raised TypeError)"
    by (simp add: detail_defs breed_text_def has_photos_def widget_key_def get_access_token_def
        prog_defs sample_defs shy_dog_def unknown_primary_def pet_defs)
  show "fst (display_pet_card
         (sample_env True (upstream JNull (JObj [(''animal'', shy_dog)])) False [])
         shy_dog False ''search'' ''tab1'' (sample_world 5000 JNull JNull 1 []))
     = Inr ()"
    by (simp add: card_defs prog_defs sample_defs shy_dog_def unknown_primary_def pet_defs)
qed

end
